theory Spec2Isabelle
  imports Main
begin

section \<open>Strings of the generator\<close>

text \<open>
  The generator works on JavaScript strings. They are modelled as \<^typ>\<open>string\<close>, one
  \<^typ>\<open>char\<close> for each code unit, restricted to ASCII: case conversion acts on the
  letters \<open>a\<close>..\<open>z\<close> and \<open>A\<close>..\<open>Z\<close>, and white space is the ASCII part of what
  \<open>trim\<close> and the regular-expression class \<open>\s\<close> accept (tab, line feed, vertical
  tab, form feed, carriage return, space). Every collection name that passes the
  validation of the composer is ASCII.
\<close>

definition lowers :: string where
  "lowers = ''abcdefghijklmnopqrstuvwxyz''"

definition uppers :: string where
  "uppers = ''ABCDEFGHIJKLMNOPQRSTUVWXYZ''"

definition digits :: string where
  "digits = ''0123456789''"

definition toUpperChar :: "char \<Rightarrow> char" where
  "toUpperChar c = (case map_of (zip lowers uppers) c of None \<Rightarrow> c | Some u \<Rightarrow> u)"

definition toLowerChar :: "char \<Rightarrow> char" where
  "toLowerChar c = (case map_of (zip uppers lowers) c of None \<Rightarrow> c | Some l \<Rightarrow> l)"

definition toLowerCase :: "string \<Rightarrow> string" where
  "toLowerCase s = map toLowerChar s"

definition isSpace :: "char \<Rightarrow> bool" where
  "isSpace c = (c \<in> set [CHR 0x09, CHR 0x0A, CHR 0x0B, CHR 0x0C, CHR 0x0D, CHR 0x20])"

text \<open>\<open>str.trim()\<close>: white space is removed at both ends.\<close>

definition trim :: "string \<Rightarrow> string" where
  "trim s = rev (dropWhile isSpace (rev (dropWhile isSpace s)))"

text \<open>The separators of \<open>/[-\s_]+/\<close>.\<close>

definition isSeparator :: "char \<Rightarrow> bool" where
  "isSeparator c = (c = CHR ''-'' \<or> isSpace c \<or> c = CHR ''_'')"

text \<open>
  \<open>str.split(/[-\s_]+/)\<close>: the string is cut at every maximal run of separators. A
  run at the start or at the end leaves an empty token there, and the empty string
  gives the one empty token.
\<close>

function splitSeparators :: "string \<Rightarrow> string list" where
  "splitSeparators [] = [[]]"
| "splitSeparators (c # cs) =
     (if isSeparator c then [] # splitSeparators (dropWhile isSeparator cs)
      else (case splitSeparators cs of
              [] \<Rightarrow> [[c]]
            | w # ws \<Rightarrow> (c # w) # ws))"
  by pat_completeness auto
termination
  by (relation "measure length") (auto simp: length_dropWhile_le less_Suc_eq_le)

section \<open>Naming utility (helperF.js)\<close>

text \<open>
  \<^verbatim>\<open>capitalize = (str) => str.charAt(0).toUpperCase() + str.slice(1)\<close>.
  On the empty string \<open>charAt(0)\<close> and \<open>slice(1)\<close> are both empty.
\<close>

fun capitalize :: "string \<Rightarrow> string" where
  "capitalize [] = []"
| "capitalize (c # cs) = toUpperChar c # cs"

text \<open>
  \<^verbatim>\<open>toCamelCase = (str) => str.trim().toLowerCase().split(/[-\s_]+/)
      .map((w, i) => i === 0 ? w : w.charAt(0).toUpperCase() + w.slice(1)).join('')\<close>
\<close>

definition toCamelCase :: "string \<Rightarrow> string" where
  "toCamelCase str =
     concat (map (\<lambda>(i, w). if i = 0 then w
                           else (case w of [] \<Rightarrow> [] | c # cs \<Rightarrow> toUpperChar c # cs))
                 (enumerate (0::nat) (splitSeparators (toLowerCase (trim str)))))"


section \<open>Action descriptor table (generateCollectionActionModule.js)\<close>

text \<open>
  A descriptor holds the key of the operation it forwards to, the function from the
  suffix to the exported member name, and the function from a name to the
  documentation comment.
\<close>

record descriptor =
  key :: string
  exportName :: "string \<Rightarrow> string"
  jsdoc :: "string \<Rightarrow> string"

definition d_fetchInitialPage :: descriptor where
  "d_fetchInitialPage =
     \<lparr>key = ''fetchInitialPage'',
      exportName = (\<lambda>suffix. ''fetchInitialPage'' @ suffix),
      jsdoc = (\<lambda>name.
        ''/**\<newline> * Fetches the first page of '' @ name @ '' with optional filters and sorting.\<newline> * @function\<newline> * @param {...any} args - Arguments forwarded to fetchInitialPage\<newline> * @returns {Promise<void>}\<newline> */'')\<rparr>"

definition d_fetchNextPage :: descriptor where
  "d_fetchNextPage =
     \<lparr>key = ''fetchNextPage'',
      exportName = (\<lambda>suffix. ''fetchNextPage'' @ suffix),
      jsdoc = (\<lambda>name.
        ''/**\<newline> * Fetches the next page of '' @ name @ '' (pagination).\<newline> * @function\<newline> * @param {...any} args - Arguments forwarded to fetchNextPage\<newline> * @returns {Promise<void>}\<newline> */'')\<rparr>"

definition d_applyFilters :: descriptor where
  "d_applyFilters =
     \<lparr>key = ''applyFilters'',
      exportName = (\<lambda>suffix. ''apply'' @ suffix @ ''Filters''),
      jsdoc = (\<lambda>name.
        ''/**\<newline> * Applies filters to the '' @ name @ '' collection query.\<newline> * @function\<newline> * @param {...any} args - Arguments forwarded to applyFilters\<newline> * @returns {Promise<void>}\<newline> */'')\<rparr>"

definition d_changeSorting :: descriptor where
  "d_changeSorting =
     \<lparr>key = ''changeSorting'',
      exportName = (\<lambda>suffix. ''change'' @ suffix @ ''Sorting''),
      jsdoc = (\<lambda>name.
        ''/**\<newline> * Changes the sorting of the '' @ name @ '' collection.\<newline> * @function\<newline> * @param {...any} args - Arguments forwarded to changeSorting\<newline> * @returns {Promise<void>}\<newline> */'')\<rparr>"

definition d_add :: descriptor where
  "d_add =
     \<lparr>key = ''add'',
      exportName = (\<lambda>suffix. ''add'' @ suffix),
      jsdoc = (\<lambda>name.
        ''/**\<newline> * Adds a new '' @ name @ '' document to the collection.\<newline> * @function\<newline> * @param {...any} args - Arguments forwarded to add\<newline> * @returns {Promise<void>}\<newline> */'')\<rparr>"

definition d_get :: descriptor where
  "d_get =
     \<lparr>key = ''get'',
      exportName = (\<lambda>suffix. ''get'' @ suffix),
      jsdoc = (\<lambda>name.
        ''/**\<newline> * Gets a document from the collection.\<newline> * @function\<newline> * @param {...any} args - Arguments forwarded to get\<newline> * @returns {Promise<void>}\<newline> */'')\<rparr>"

definition d_getWhere :: descriptor where
  "d_getWhere =
     \<lparr>key = ''getWhere'',
      exportName = (\<lambda>suffix. ''getWhere'' @ suffix),
      jsdoc = (\<lambda>name.
        ''/**\<newline> * Gets a document based on the condition from the collection, e.g clientId = 'xxx'.\<newline> * @function\<newline> * @param {...any} args - Arguments forwarded to get\<newline> * @returns {Promise<void>}\<newline> */'')\<rparr>"

definition d_update :: descriptor where
  "d_update =
     \<lparr>key = ''update'',
      exportName = (\<lambda>suffix. ''update'' @ suffix),
      jsdoc = (\<lambda>name.
        ''/**\<newline> * Updates an existing '' @ name @ '' document.\<newline> * @function\<newline> * @param {...any} args - Arguments forwarded to update\<newline> * @returns {Promise<void>}\<newline> */'')\<rparr>"

definition d_search :: descriptor where
  "d_search =
     \<lparr>key = ''search'',
      exportName = (\<lambda>suffix. ''search'' @ suffix),
      jsdoc = (\<lambda>name.
        ''/**\<newline> * Searches '' @ name @ '' documents by a term and optional field.\<newline> * @function\<newline> * @param {...any} args - Arguments forwarded to search\<newline> * @returns {Promise<void>}\<newline> */'')\<rparr>"

definition d_clearSearch :: descriptor where
  "d_clearSearch =
     \<lparr>key = ''clearSearch'',
      exportName = (\<lambda>suffix. ''clear'' @ suffix @ ''Search''),
      jsdoc = (\<lambda>name.
        ''/**\<newline> * Clears the current '' @ name @ '' search results.\<newline> * @function\<newline> * @param {...any} args - Arguments forwarded to clearSearch\<newline> * @returns {Promise<void>}\<newline> */'')\<rparr>"

definition d_remove :: descriptor where
  "d_remove =
     \<lparr>key = ''remove'',
      exportName = (\<lambda>suffix. ''delete'' @ suffix),
      jsdoc = (\<lambda>name.
        ''/**\<newline> * Deletes a '' @ name @ '' document by ID.\<newline> * @function\<newline> * @param {...any} args - Arguments forwarded to remove\<newline> * @returns {Promise<void>}\<newline> */'')\<rparr>"

definition d_assignRoles :: descriptor where
  "d_assignRoles =
     \<lparr>key = ''assignRoles'',
      exportName = (\<lambda>suffix. ''assign'' @ suffix @ ''Roles''),
      jsdoc = (\<lambda>name.
        ''/**\<newline> * Assigns roles to a '' @ toLowerCase name @ '' user.\<newline> * @function\<newline> * @param {...any} args - Arguments forwarded to assignRoles\<newline> * @returns {Promise<void>}\<newline> */'')\<rparr>"

definition d_revokeRoles :: descriptor where
  "d_revokeRoles =
     \<lparr>key = ''revokeRoles'',
      exportName = (\<lambda>suffix. ''revoke'' @ suffix @ ''Roles''),
      jsdoc = (\<lambda>name.
        ''/**\<newline> * Revokes roles from a '' @ toLowerCase name @ '' user.\<newline> * @function\<newline> * @param {...any} args - Arguments forwarded to revokeRoles\<newline> * @returns {Promise<void>}\<newline> */'')\<rparr>"

text \<open>The table, in the order of the source.\<close>

definition actionDescriptors :: "descriptor list" where
  "actionDescriptors =
     [d_fetchInitialPage,
      d_fetchNextPage,
      d_applyFilters,
      d_changeSorting,
      d_add,
      d_get,
      d_getWhere,
      d_update,
      d_search,
      d_clearSearch,
      d_remove,
      d_assignRoles,
      d_revokeRoles]"


section \<open>File system and errors\<close>

text \<open>
  A JavaScript error object: \<open>code\<close> is absent on a plain \<open>Error\<close>, \<open>message\<close> is
  its message.
\<close>

record js_error =
  code :: "string option"
  message :: string

definition Error :: "string \<Rightarrow> js_error" where
  "Error m = \<lparr>code = None, message = m\<rparr>"

text \<open>
  The file system the composer reads and writes: the directories that exist, the
  files with their content, and for each path the message of the error that an
  operation on it throws, if it throws. \<open>partial_write\<close> says what a failing write
  leaves behind: nothing changes when the path has no entry (the file could not be
  opened), and with the entry \<open>k\<close> the file was opened, which creates or empties it,
  and \<open>k\<close> characters were written before the failure.
\<close>

record filesystem =
  directories :: "string set"
  files :: "string \<rightharpoonup> string"
  io_failure :: "string \<rightharpoonup> string"
  partial_write :: "string \<rightharpoonup> nat"

definition existsSync :: "filesystem \<Rightarrow> string \<Rightarrow> bool" where
  "existsSync fs p = (p \<in> directories fs \<or> files fs p \<noteq> None)"

text \<open>
  \<open>mkdirSync(p, { recursive: true })\<close>. The driver has created every ancestor of the
  actions directory before the composer runs, so only \<open>p\<close> itself is recorded.
\<close>

definition mkdirSync :: "filesystem \<Rightarrow> string \<Rightarrow> filesystem \<times> (js_error + unit)" where
  "mkdirSync fs p =
     (case io_failure fs p of
        Some m \<Rightarrow> (fs, Inl (Error m))
      | None \<Rightarrow> (fs\<lparr>directories := insert p (directories fs)\<rparr>, Inr ()))"

definition writeFileSync :: "filesystem \<Rightarrow> string \<Rightarrow> string \<Rightarrow> filesystem \<times> (js_error + unit)" where
  "writeFileSync fs p content =
     (case io_failure fs p of
        Some m \<Rightarrow>
          (case partial_write fs p of
             None \<Rightarrow> (fs, Inl (Error m))
           | Some k \<Rightarrow> (fs\<lparr>files := (files fs)(p \<mapsto> take k content)\<rparr>, Inl (Error m)))
      | None \<Rightarrow> (fs\<lparr>files := (files fs)(p \<mapsto> content)\<rparr>, Inr ()))"

text \<open>
  \<open>writeFile\<close> of helperF.js: the content is trimmed, one line feed is appended, and a
  failure of the write is thrown again under a longer message.
\<close>

definition writeFile :: "filesystem \<Rightarrow> string \<Rightarrow> string \<Rightarrow> filesystem \<times> (js_error + unit)" where
  "writeFile fs filePath content =
     (case writeFileSync fs filePath (trim content @ ''\<newline>'') of
        (fs', Inl error) \<Rightarrow>
          (fs', Inl (Error (''Failed to write file: '' @ filePath @ ''\<newline>'' @ message error)))
      | (fs', Inr u) \<Rightarrow> (fs', Inr u))"

text \<open>
  \<open>path.join(a, b)\<close> for operands without \<open>.\<close> and \<open>..\<close> segments and without doubled or
  trailing separators, where it has nothing to normalise.
\<close>

definition path_join :: "string \<Rightarrow> string \<Rightarrow> string" where
  "path_join a b = a @ ''/'' @ b"

section \<open>Per-collection module composer (generateCollectionActionModule.js)\<close>

text \<open>The test \<^verbatim>\<open>/^[a-z][a-z0-9_-]{0,63}$/i\<close>.\<close>

definition isLetter :: "char \<Rightarrow> bool" where
  "isLetter c = (c \<in> set lowers \<or> c \<in> set uppers)"

definition isNameChar :: "char \<Rightarrow> bool" where
  "isNameChar c = (isLetter c \<or> c \<in> set digits \<or> c = CHR ''_'' \<or> c = CHR ''-'')"

fun validCollectionName :: "string \<Rightarrow> bool" where
  "validCollectionName [] = False"
| "validCollectionName (c # cs) = (isLetter c \<and> list_all isNameChar cs \<and> length cs \<le> 63)"

definition apostrophe :: string where
  "apostrophe = [CHR 0x27]"

text \<open>The name of the function the module exports (line \<open>export function use...\<close>).\<close>

definition moduleExportName :: "string \<Rightarrow> string" where
  "moduleExportName collectionName = ''use'' @ capitalize collectionName @ ''Actions''"

text \<open>The content before the loop over the descriptors.\<close>

definition moduleHeader :: "string \<Rightarrow> string" where
  "moduleHeader collectionName =
     ''import { useFirestoreCollectionActions } from '' @ apostrophe
       @ ''../useFirestoreCollectionActions.js'' @ apostrophe @ '';\<newline>\<newline>''
     @ ''/**\<newline>''
     @ '' * Generates a set of Firestore actions scoped to the `'' @ collectionName @ ''` collection.\<newline>''
     @ '' *\<newline>''
     @ '' * @param {Object} state - Pinia store state\<newline>''
     @ '' * @returns {Object} '' @ collectionName @ ''Actions - A set of methods to interact with the ''
       @ collectionName @ '' Firestore collection\<newline>''
     @ '' */\<newline>''
     @ ''export function '' @ moduleExportName collectionName @ ''(state) {\<newline>''
     @ ''  let actionsInstance = null;\<newline>\<newline>''
     @ ''  /**\<newline>''
     @ ''   * Lazily initializes and retrieves the '' @ collectionName @ '' collection actions.\<newline>''
     @ ''   * @returns {Object} Firestore collection methods for '' @ apostrophe @ collectionName
       @ apostrophe @ ''\<newline>''
     @ ''   */\<newline>''
     @ ''  const getActions = () => {\<newline>''
     @ ''    if (!actionsInstance) {\<newline>''
     @ ''      actionsInstance = useFirestoreCollectionActions('' @ apostrophe @ collectionName
       @ apostrophe @ '', state);\<newline>''
     @ ''    }\<newline>''
     @ ''    return actionsInstance;\<newline>''
     @ ''  };\<newline>\<newline>''
     @ ''  return {\<newline>''"

text \<open>\<open>text.replace(/\n/g, '\n    ')\<close>: four spaces after every line feed.\<close>

definition indentLines :: "string \<Rightarrow> string" where
  "indentLines t = concat (map (\<lambda>c. if c = CHR 0x0A then ''\<newline>    '' else [c]) t)"


text \<open>What one round of the loop appends for a descriptor.\<close>

definition memberText :: "string \<Rightarrow> descriptor \<Rightarrow> string" where
  "memberText suffix d =
     (let funcName = exportName d suffix in
        ''    '' @ indentLines (jsdoc d suffix) @ ''\<newline>''
        @ ''    '' @ funcName @ ''(...args) {\<newline>''
        @ ''      return getActions().'' @ key d @ ''(...args);\<newline>''
        @ ''    },\<newline>\<newline>'')"

text \<open>The content handed to \<open>writeFile\<close>.\<close>

definition moduleContent :: "string \<Rightarrow> string" where
  "moduleContent collectionName =
     (let suffix = capitalize collectionName;
          content = moduleHeader collectionName;
          content = foldl (\<lambda>content d. content @ memberText suffix d) content actionDescriptors
      in content @ ''  };\<newline>'' @ ''}\<newline>'')"

text \<open>The member names the loop emits, one \<open>funcName\<close> for each descriptor it visits.\<close>

definition memberNames :: "string \<Rightarrow> string list" where
  "memberNames collectionName =
     (let suffix = capitalize collectionName
      in map (\<lambda>d. exportName d suffix) actionDescriptors)"

record generated =
  success :: bool
  path :: string

definition generateCollectionActionModule ::
    "filesystem \<Rightarrow> string \<Rightarrow> string \<Rightarrow> filesystem \<times> (js_error + generated)" where
  "generateCollectionActionModule fs baseDir collectionName =
     (let wrap = (\<lambda>error. Error (''[Action Generator] '' @ collectionName @ '' failed: '' @ message error))
      in
      if \<not> validCollectionName collectionName
      then (fs, Inl (wrap (Error (''Invalid Firestore collection name: '' @ collectionName))))
      else
        let actionsDir = path_join baseDir ''actions'';
            (fs1, made) = (if \<not> existsSync fs actionsDir then mkdirSync fs actionsDir
                           else (fs, Inr ()))
        in (case made of
              Inl error \<Rightarrow> (fs1, Inl (wrap error))
            | Inr _ \<Rightarrow>
                (let filePath = path_join actionsDir (collectionName @ ''.js'')
                 in (case writeFile fs1 filePath (moduleContent collectionName) of
                       (fs2, Inl error) \<Rightarrow> (fs2, Inl (wrap error))
                     | (fs2, Inr _) \<Rightarrow> (fs2, Inr \<lparr>success = True, path = filePath\<rparr>)))))"


section \<open>Interactive driver (index.js)\<close>

text \<open>\<open>str.split(',')\<close>: every comma cuts, empty tokens are kept.\<close>

fun splitComma :: "string \<Rightarrow> string list" where
  "splitComma [] = [[]]"
| "splitComma (c # cs) =
     (if c = CHR '','' then [] # splitComma cs
      else (case splitComma cs of
              [] \<Rightarrow> [[c]]
            | w # ws \<Rightarrow> (c # w) # ws))"

text \<open>
  The collections of a run, from the answer typed at the prompt: \<open>ask\<close> trims the
  answer, then
  \<^verbatim>\<open>collectionsInput.split(',').map(c => toCamelCase(c).trim()).filter(Boolean)\<close>.
\<close>

definition collectionsOfAnswer :: "string \<Rightarrow> string list" where
  "collectionsOfAnswer answer =
     (let collectionsInput = trim answer
      in filter (\<lambda>c. c \<noteq> []) (map (\<lambda>c. trim (toCamelCase c)) (splitComma collectionsInput)))"

definition isAuthCollection :: "string \<Rightarrow> bool" where
  "isAuthCollection collectionName =
     (let authCollections =
        [''users'', ''user'', ''customer'', ''client'', ''clients'', ''customers'', ''student'',
         ''students'', ''admins'', ''admin'', ''accounts'', ''account'']
      in toLowerCase collectionName \<in> set authCollections)"

section \<open>Imports of the index file (generateIndexFile.js)\<close>

text \<open>\<open>xs.join(sep)\<close>.\<close>

fun joinWith :: "string \<Rightarrow> string list \<Rightarrow> string" where
  "joinWith sep [] = []"
| "joinWith sep [x] = x"
| "joinWith sep (x # y # ys) = x @ sep @ joinWith sep (y # ys)"

text \<open>The import line of one collection, and the lines of all of them.\<close>

definition actionImport :: "string \<Rightarrow> string" where
  "actionImport col =
     ''import { useFirestoreCollectionActions as use'' @ capitalize col @ ''Actions } from ''
     @ apostrophe @ ''./actions/'' @ col @ ''.js'' @ apostrophe @ '';''"

definition actionImports :: "string list \<Rightarrow> string" where
  "actionImports collections = joinWith ''\<newline>'' (map actionImport collections)"

section \<open>Generated authentication flows (template of generateIndexFile.js)\<close>

text \<open>
  The index file carries the text of eight flow functions. Each is modelled by what
  its body does to the refs of the store. The result of every call to Firebase is
  given as an argument (\<open>Inl\<close> the error a rejected call throws, \<open>Inr\<close> the value it
  resolves to). A call to an operation of the action set of the primary auth
  collection works on the same state object as the flow, so it is given as an
  argument with the assignments it makes to the refs, which the flow then sees.
\<close>

subsection \<open>JavaScript values\<close>

datatype jsval = JUndefined | JNull | JBool bool | JStr string | JObj "(string \<times> jsval) list"

type_synonym jsobj = "(string \<times> jsval) list"

fun truthy :: "jsval \<Rightarrow> bool" where
  "truthy JUndefined = False"
| "truthy JNull = False"
| "truthy (JBool b) = b"
| "truthy (JStr s) = (s \<noteq> [])"
| "truthy (JObj kvs) = True"

text \<open>\<open>a || b\<close>.\<close>

definition jsOr :: "jsval \<Rightarrow> jsval \<Rightarrow> jsval" where
  "jsOr a b = (if truthy a then a else b)"

text \<open>\<open>obj.k\<close>.\<close>

definition getProp :: "jsobj \<Rightarrow> string \<Rightarrow> jsval" where
  "getProp obj k = (case map_of obj k of None \<Rightarrow> JUndefined | Some v \<Rightarrow> v)"

text \<open>A property set in an object literal: an earlier one of that name is replaced.\<close>

primrec setProp :: "string \<Rightarrow> jsval \<Rightarrow> jsobj \<Rightarrow> jsobj" where
  "setProp k v [] = [(k, v)]"
| "setProp k v (p # ps) = (if fst p = k then (k, v) # ps else p # setProp k v ps)"

text \<open>
  \<open>{ ...a, ...b }\<close> for an object \<open>b\<close>, and for a value that is an object, \<open>null\<close> or
  \<open>undefined\<close> (a profile document or its absence).
\<close>

definition spread :: "jsobj \<Rightarrow> jsobj \<Rightarrow> jsobj" where
  "spread a b = foldl (\<lambda>obj (k, v). setProp k v obj) a b"

definition spreadValue :: "jsobj \<Rightarrow> jsval \<Rightarrow> jsobj" where
  "spreadValue a v = (case v of JObj b \<Rightarrow> spread a b | _ \<Rightarrow> a)"

text \<open>The user object of Firebase Auth, with its metadata flattened.\<close>

record fb_user =
  uid :: jsval
  email :: jsval
  emailVerified :: jsval
  displayName :: jsval
  photoURL :: jsval
  creationTime :: jsval
  lastSignInTime :: jsval

text \<open>The object \<open>login\<close> and the auth-state listener build from the Firebase user.\<close>

definition authUserObject :: "fb_user \<Rightarrow> jsobj" where
  "authUserObject u =
     [(''uid'', uid u),
      (''email'', email u),
      (''emailVerified'', emailVerified u),
      (''displayName'', displayName u),
      (''photoURL'', photoURL u),
      (''metadata'', JObj [(''creationTime'', creationTime u),
                          (''lastSignInTime'', lastSignInTime u)])]"

subsection \<open>The store\<close>

text \<open>
  The refs the flows touch. \<open>emailVerificationSent\<close> is \<open>None\<close> when the state object has
  no ref of that name: the state module declares \<open>loading\<close>, \<open>error\<close>,
  \<open>authInitialized\<close>, \<open>currentUser\<close> and one ref for each collection, so the ref exists
  only when a collection has that name. \<open>writes\<close> records every assignment to a ref, in
  order; \<open>listeners\<close> counts the calls of \<open>onAuthStateChanged\<close>.
\<close>

datatype ref_write =
    WLoading bool
  | WError "string option"
  | WCurrentUser "jsobj option"
  | WEmailVerificationSent bool
  | WAuthInitialized bool

record store =
  loading :: bool
  error :: "string option"
  currentUser :: "jsobj option"
  emailVerificationSent :: "bool option"
  authInitialized :: bool
  writes :: "ref_write list"
  listeners :: nat

text \<open>The state the generated state module starts from (generateStateFile).\<close>

definition initialState :: store where
  "initialState =
     \<lparr>loading = False, error = None, currentUser = None, emailVerificationSent = None,
      authInitialized = False, writes = [], listeners = 0\<rparr>"

definition set_loading :: "bool \<Rightarrow> store \<Rightarrow> store" where
  "set_loading b state = state\<lparr>loading := b, writes := writes state @ [WLoading b]\<rparr>"

definition set_error :: "string option \<Rightarrow> store \<Rightarrow> store" where
  "set_error m state = state\<lparr>error := m, writes := writes state @ [WError m]\<rparr>"

definition set_currentUser :: "jsobj option \<Rightarrow> store \<Rightarrow> store" where
  "set_currentUser u state = state\<lparr>currentUser := u, writes := writes state @ [WCurrentUser u]\<rparr>"

definition set_authInitialized :: "bool \<Rightarrow> store \<Rightarrow> store" where
  "set_authInitialized b state =
     state\<lparr>authInitialized := b, writes := writes state @ [WAuthInitialized b]\<rparr>"

text \<open>
  \<open>state.emailVerificationSent.value = b\<close> throws a TypeError when the state object has
  no such ref (the message is the one of V8).
\<close>

definition set_emailVerificationSent :: "bool \<Rightarrow> store \<Rightarrow> store \<times> (js_error + unit)" where
  "set_emailVerificationSent b state =
     (case emailVerificationSent state of
        None \<Rightarrow> (state, Inl (Error ''Cannot set properties of undefined (setting 'value')''))
      | Some _ \<Rightarrow> (state\<lparr>emailVerificationSent := Some b,
                          writes := writes state @ [WEmailVerificationSent b]\<rparr>, Inr ()))"

text \<open>What a flow throws, and what it returns.\<close>

record failure =
  failure_code :: "string option"
  failure_message :: string
  originalError :: js_error

datatype auth_response = Success | SuccessUser "jsobj option"

subsection \<open>Calls to the action set\<close>

text \<open>
  A call to an operation of the action set (\<open>getUsers\<close>, \<open>addUsers\<close>, \<open>update\<close> for the
  primary auth collection \<open>users\<close>): the assignments it makes to the refs of the store,
  in order, and what it throws or returns. Whatever the name of the action set is
  bound to, a call is of this kind; one that fails because the operation is missing
  assigns nothing and throws. Assignments to the refs of the collections are not
  recorded: no flow reads them.
\<close>

record action_call =
  assigns :: "ref_write list"
  result :: "js_error + jsval"

definition assign :: "ref_write \<Rightarrow> store \<Rightarrow> store" where
  "assign w state =
     (case w of
        WLoading b \<Rightarrow> set_loading b state
      | WError m \<Rightarrow> set_error m state
      | WCurrentUser u \<Rightarrow> set_currentUser u state
      | WEmailVerificationSent b \<Rightarrow>
          state\<lparr>emailVerificationSent := Some b,
                writes := writes state @ [WEmailVerificationSent b]\<rparr>
      | WAuthInitialized b \<Rightarrow> set_authInitialized b state)"

definition performs :: "action_call \<Rightarrow> store \<Rightarrow> store" where
  "performs call state = foldl (\<lambda>state w. assign w state) state (assigns call)"

text \<open>
  The operation \<open>get\<close> that the generated \<open>useFirestoreCollectionActions\<close> provides
  (generateFirestoreUtilFile.js), for the result of \<open>getDoc\<close>: the error it rejects
  with, or the document (\<open>None\<close> when it does not exist, else its id and data). It
  sets \<open>loading\<close> to true, returns \<open>null\<close> or the document with its id, on an error
  assigns the message to \<open>error\<close> and throws the error again, and in every case sets
  \<open>loading\<close> to false.
\<close>

definition generatedGet :: "js_error + (string \<times> jsobj) option \<Rightarrow> action_call" where
  "generatedGet getDoc =
     (case getDoc of
        Inl err \<Rightarrow>
          \<lparr>assigns = [WLoading True, WError (Some (message err)), WLoading False],
           result = Inl err\<rparr>
      | Inr None \<Rightarrow>
          \<lparr>assigns = [WLoading True, WLoading False], result = Inr JNull\<rparr>
      | Inr (Some (docId, docData)) \<Rightarrow>
          \<lparr>assigns = [WLoading True, WLoading False],
           result = Inr (JObj (spread [(''id'', JStr docId)] docData))\<rparr>)"

subsection \<open>login\<close>

text \<open>
  The \<open>switch\<close> of the catch block. The primary auth collection is never \<open>null\<close> inside the
  auth block, so the test \<open>user.uid && usersActions\<close> is the test of \<open>user.uid\<close>.
\<close>

definition loginErrorMessage :: "js_error \<Rightarrow> string" where
  "loginErrorMessage err =
     (if code err = Some ''auth/user-not-found'' then ''No user found with this email.''
      else if code err = Some ''auth/wrong-password'' then ''Incorrect password.''
      else if code err = Some ''auth/invalid-credential'' then ''Invalid email or password.''
      else if code err = Some ''auth/too-many-requests''
        then ''Too many failed login attempts. Account temporarily locked.''
      else if code err = Some ''auth/user-disabled'' then ''This account has been disabled.''
      else if message err \<noteq> [] then message err
      else ''An unknown authentication error occurred.'')"

definition login_try ::
    "(js_error + unit) \<Rightarrow> (js_error + fb_user) \<Rightarrow> action_call \<Rightarrow> store
     \<Rightarrow> store \<times> (js_error + auth_response)" where
  "login_try setPersistence signIn getProfile state =
     (case setPersistence of
        Inl err \<Rightarrow> (state, Inl err)
      | Inr _ \<Rightarrow>
          (case signIn of
             Inl err \<Rightarrow> (state, Inl err)
           | Inr credentialUser \<Rightarrow>
               (let user = authUserObject credentialUser;
                    (state, user) =
                      (if truthy (getProp user ''uid'')
                       then (performs getProfile state,
                             (case result getProfile of
                                Inl profileError \<Rightarrow> user
                              | Inr userProfile \<Rightarrow>
                                  if truthy userProfile then spreadValue user userProfile
                                  else user))
                       else (state, user));
                    state = set_currentUser (Some user) state
                in (state, Inr (SuccessUser (currentUser state))))))"

definition login_catch :: "js_error \<Rightarrow> store \<Rightarrow> store \<times> (failure + auth_response)" where
  "login_catch err state =
     (let errorMessage = loginErrorMessage err;
          state = set_error (Some errorMessage) state
      in (state, Inl \<lparr>failure_code = code err, failure_message = errorMessage,
                       originalError = err\<rparr>))"

definition login ::
    "(js_error + unit) \<Rightarrow> (js_error + fb_user) \<Rightarrow> action_call \<Rightarrow> store
     \<Rightarrow> store \<times> (failure + auth_response)" where
  "login setPersistence signIn getProfile state =
     (let state = set_loading True state;
          state = set_error None state;
          (state, outcome) =
            (case login_try setPersistence signIn getProfile state of
               (state, Inr response) \<Rightarrow> (state, Inr response)
             | (state, Inl err) \<Rightarrow> login_catch err state)
      in (set_loading False state, outcome))"

subsection \<open>signUp\<close>

definition signUpErrorMessage :: "js_error \<Rightarrow> string" where
  "signUpErrorMessage err =
     (if code err = Some ''auth/email-already-in-use''
        then ''This email address is already registered.''
      else if code err = Some ''auth/invalid-email'' then ''The email address is not valid.''
      else if code err = Some ''auth/weak-password''
        then ''The password is too weak. Please choose a stronger password.''
      else if code err = Some ''auth/operation-not-allowed''
        then ''Email/password accounts are not enabled. Please contact support.''
      else if message err \<noteq> [] then message err
      else ''An unknown registration error occurred.'')"

text \<open>
  \<open>updateProfile\<close> of Firebase changes the user object it is given: its result here is
  that user after the change. \<open>addProfile\<close> is the call \<open>addUsers(userFirestoreData)\<close>
  for the object it is handed, together with that object as the call leaves it (the
  generated \<open>add\<close> sets \<open>createdBy\<close> on it); the flow assigns the same object to
  \<open>currentUser\<close> afterwards.
\<close>

text \<open>The object \<open>userFirestoreData\<close> that \<open>signUp\<close> builds for the profile document.\<close>

definition firestoreUserData :: "fb_user \<Rightarrow> jsobj \<Rightarrow> jsobj" where
  "firestoreUserData firebaseUser profileData =
     spread
       [(''uid'', uid firebaseUser),
        (''email'', email firebaseUser),
        (''emailVerified'', emailVerified firebaseUser),
        (''displayName'',
           jsOr (jsOr (displayName firebaseUser) (getProp profileData ''displayName'')) JNull),
        (''photoURL'',
           jsOr (jsOr (photoURL firebaseUser) (getProp profileData ''photoURL'')) JNull),
        (''createdAt'', creationTime firebaseUser),
        (''lastSignInTime'', lastSignInTime firebaseUser)]
       profileData"

definition signUp_try ::
    "(js_error + fb_user) \<Rightarrow> (js_error + fb_user) \<Rightarrow> (jsobj \<Rightarrow> action_call \<times> jsobj)
     \<Rightarrow> (js_error + unit) \<Rightarrow> jsobj \<Rightarrow> bool \<Rightarrow> store
     \<Rightarrow> store \<times> (js_error + auth_response)" where
  "signUp_try createUser updateAuthProfile addProfile sendVerificationEmail
              profileData sendVerification state =
     (case createUser of
        Inl err \<Rightarrow> (state, Inl err)
      | Inr created \<Rightarrow>
          (case (if truthy (jsOr (getProp profileData ''displayName'')
                                 (getProp profileData ''photoURL''))
                 then updateAuthProfile else Inr created) of
             Inl err \<Rightarrow> (state, Inl err)
           | Inr firebaseUser \<Rightarrow>
               (let userFirestoreData = firestoreUserData firebaseUser profileData;
                    (added, userFirestoreData) = addProfile userFirestoreData;
                    state = performs added state
                in (case result added of
                      Inl err \<Rightarrow> (state, Inl err)
                    | Inr _ \<Rightarrow>
                        (case (if sendVerification
                               then (case sendVerificationEmail of
                                       Inl err \<Rightarrow> (state, Inl err)
                                     | Inr _ \<Rightarrow> set_emailVerificationSent True state)
                               else (state, Inr ())) of
                           (state, Inl err) \<Rightarrow> (state, Inl err)
                         | (state, Inr _) \<Rightarrow>
                             (let state = set_currentUser (Some userFirestoreData) state
                              in (state, Inr (SuccessUser (currentUser state)))))))))"

definition signUp_catch :: "js_error \<Rightarrow> store \<Rightarrow> store \<times> (failure + auth_response)" where
  "signUp_catch err state =
     (let errorMessage = signUpErrorMessage err;
          state = set_error (Some errorMessage) state
      in (state, Inl \<lparr>failure_code = code err, failure_message = errorMessage,
                       originalError = err\<rparr>))"

definition signUp ::
    "(js_error + fb_user) \<Rightarrow> (js_error + fb_user) \<Rightarrow> (jsobj \<Rightarrow> action_call \<times> jsobj)
     \<Rightarrow> (js_error + unit) \<Rightarrow> jsobj \<Rightarrow> bool \<Rightarrow> store
     \<Rightarrow> store \<times> (failure + auth_response)" where
  "signUp createUser updateAuthProfile addProfile sendVerificationEmail
          profileData sendVerification state =
     (let state = set_loading True state;
          state = set_error None state;
          (state, outcome) =
            (case signUp_try createUser updateAuthProfile addProfile sendVerificationEmail
                    profileData sendVerification state of
               (state, Inr response) \<Rightarrow> (state, Inr response)
             | (state, Inl err) \<Rightarrow> signUp_catch err state)
      in (set_loading False state, outcome))"

subsection \<open>logout\<close>

definition logout_try :: "(js_error + unit) \<Rightarrow> store \<Rightarrow> store \<times> (js_error + auth_response)" where
  "logout_try signOut state =
     (case signOut of
        Inl err \<Rightarrow> (state, Inl err)
      | Inr _ \<Rightarrow>
          (let state = set_currentUser None state
           in (case set_emailVerificationSent False state of
                 (state, Inl err) \<Rightarrow> (state, Inl err)
               | (state, Inr _) \<Rightarrow> (state, Inr Success))))"

definition logout_catch :: "js_error \<Rightarrow> store \<Rightarrow> store \<times> (failure + auth_response)" where
  "logout_catch err state =
     (let state = set_error (Some (message err)) state
      in (state, Inl \<lparr>failure_code = Some ''auth/logout-failed'',
                       failure_message = ''Logout failed'', originalError = err\<rparr>))"

definition logout :: "(js_error + unit) \<Rightarrow> store \<Rightarrow> store \<times> (failure + auth_response)" where
  "logout signOut state =
     (let state = set_loading True state;
          state = set_error None state;
          (state, outcome) =
            (case logout_try signOut state of
               (state, Inr response) \<Rightarrow> (state, Inr response)
             | (state, Inl err) \<Rightarrow> logout_catch err state)
      in (set_loading False state, outcome))"

subsection \<open>sendPasswordReset\<close>

definition passwordResetErrorMessage :: "js_error \<Rightarrow> string" where
  "passwordResetErrorMessage err =
     (if code err = Some ''auth/user-not-found'' then ''No user found with this email address.''
      else if code err = Some ''auth/invalid-email'' then ''The email address is not valid.''
      else if message err \<noteq> [] then message err
      else ''An unknown error occurred while sending reset email.'')"

definition sendPasswordReset_try ::
    "(js_error + unit) \<Rightarrow> store \<Rightarrow> store \<times> (js_error + auth_response)" where
  "sendPasswordReset_try sendPasswordResetEmail state =
     (case sendPasswordResetEmail of
        Inl err \<Rightarrow> (state, Inl err)
      | Inr _ \<Rightarrow> (state, Inr Success))"

definition sendPasswordReset_catch ::
    "js_error \<Rightarrow> store \<Rightarrow> store \<times> (failure + auth_response)" where
  "sendPasswordReset_catch err state =
     (let errorMessage = passwordResetErrorMessage err;
          state = set_error (Some errorMessage) state
      in (state, Inl \<lparr>failure_code = code err, failure_message = errorMessage,
                       originalError = err\<rparr>))"

definition sendPasswordReset ::
    "(js_error + unit) \<Rightarrow> store \<Rightarrow> store \<times> (failure + auth_response)" where
  "sendPasswordReset sendPasswordResetEmail state =
     (let state = set_loading True state;
          state = set_error None state;
          (state, outcome) =
            (case sendPasswordReset_try sendPasswordResetEmail state of
               (state, Inr response) \<Rightarrow> (state, Inr response)
             | (state, Inl err) \<Rightarrow> sendPasswordReset_catch err state)
      in (set_loading False state, outcome))"

subsection \<open>updateProfile\<close>

text \<open>
  \<open>authCurrentUser\<close> is \<open>auth.currentUser\<close> at entry (\<open>None\<close> for \<open>null\<close>),
  \<open>updateAuthProfile\<close> the same user after Firebase has changed it, \<open>updateDocument\<close>
  and \<open>getProfile\<close> the calls \<open>update\<close> and \<open>getUsers\<close>. The flow reads \<open>currentUser\<close>
  again after each call.
\<close>

definition updateProfile_try ::
    "fb_user option \<Rightarrow> (js_error + fb_user) \<Rightarrow> action_call \<Rightarrow> action_call
     \<Rightarrow> store \<Rightarrow> store \<times> (js_error + auth_response)" where
  "updateProfile_try authCurrentUser updateAuthProfile updateDocument getProfile state =
     (case authCurrentUser of
        None \<Rightarrow> (state, Inl (Error ''No authenticated user to update profile.''))
      | Some _ \<Rightarrow>
          (case updateAuthProfile of
             Inl err \<Rightarrow> (state, Inl err)
           | Inr updated \<Rightarrow>
               (let user = spread (case currentUser state of None \<Rightarrow> [] | Some u \<Rightarrow> u)
                             [(''displayName'', displayName updated),
                              (''photoURL'', photoURL updated)];
                    state = set_currentUser (Some user) state
                in if truthy (getProp user ''uid'')
                   then (let state = performs updateDocument state
                         in (case result updateDocument of
                               Inl err \<Rightarrow> (state, Inl err)
                             | Inr _ \<Rightarrow>
                                 (case currentUser state of
                                    None \<Rightarrow>
                                      (state, Inl (Error
                                         ''Cannot read properties of null (reading 'uid')''))
                                  | Some _ \<Rightarrow>
                                      (let state = performs getProfile state
                                       in (case result getProfile of
                                             Inl err \<Rightarrow> (state, Inl err)
                                           | Inr updatedProfile \<Rightarrow>
                                               (let state =
                                                  (if truthy updatedProfile
                                                   then set_currentUser
                                                          (Some (spreadValue
                                                             (case currentUser state of
                                                                None \<Rightarrow> []
                                                              | Some u \<Rightarrow> u)
                                                             updatedProfile)) state
                                                   else state)
                                                in (state,
                                                    Inr (SuccessUser (currentUser state)))))))))
                   else (state, Inr (SuccessUser (currentUser state))))))"

definition updateProfile_catch :: "js_error \<Rightarrow> store \<Rightarrow> store \<times> (failure + auth_response)" where
  "updateProfile_catch err state =
     (let state = set_error (Some (message err)) state
      in (state, Inl \<lparr>failure_code = Some ''auth/profile-update-failed'',
                       failure_message = ''Profile update failed'', originalError = err\<rparr>))"

definition updateProfile ::
    "fb_user option \<Rightarrow> (js_error + fb_user) \<Rightarrow> action_call \<Rightarrow> action_call
     \<Rightarrow> store \<Rightarrow> store \<times> (failure + auth_response)" where
  "updateProfile authCurrentUser updateAuthProfile updateDocument getProfile state =
     (let state = set_loading True state;
          state = set_error None state;
          (state, outcome) =
            (case updateProfile_try authCurrentUser updateAuthProfile updateDocument
                    getProfile state of
               (state, Inr response) \<Rightarrow> (state, Inr response)
             | (state, Inl err) \<Rightarrow> updateProfile_catch err state)
      in (set_loading False state, outcome))"

subsection \<open>changePassword\<close>

definition changePasswordErrorMessage :: "js_error \<Rightarrow> string" where
  "changePasswordErrorMessage err =
     (if code err = Some ''auth/wrong-password''
        then ''The current password you entered is incorrect.''
      else if code err = Some ''auth/requires-recent-login''
        then ''Your session has expired. Please log in again to change your password.''
      else if code err = Some ''auth/weak-password''
        then ''The new password is too weak. Please choose a stronger password.''
      else if message err \<noteq> [] then message err
      else ''An unknown error occurred while changing password.'')"

definition changePassword_try ::
    "fb_user option \<Rightarrow> (js_error + unit) \<Rightarrow> (js_error + unit) \<Rightarrow> store
     \<Rightarrow> store \<times> (js_error + auth_response)" where
  "changePassword_try authCurrentUser reauthenticate updatePassword state =
     (if (case authCurrentUser of None \<Rightarrow> True | Some u \<Rightarrow> \<not> truthy (email u))
      then (state, Inl (Error
              ''No authenticated user or email not available for reauthentication.''))
      else (case reauthenticate of
              Inl err \<Rightarrow> (state, Inl err)
            | Inr _ \<Rightarrow>
                (case updatePassword of
                   Inl err \<Rightarrow> (state, Inl err)
                 | Inr _ \<Rightarrow> (state, Inr Success))))"

definition changePassword_catch :: "js_error \<Rightarrow> store \<Rightarrow> store \<times> (failure + auth_response)" where
  "changePassword_catch err state =
     (let errorMessage = changePasswordErrorMessage err;
          state = set_error (Some errorMessage) state
      in (state, Inl \<lparr>failure_code = code err, failure_message = errorMessage,
                       originalError = err\<rparr>))"

definition changePassword ::
    "fb_user option \<Rightarrow> (js_error + unit) \<Rightarrow> (js_error + unit) \<Rightarrow> store
     \<Rightarrow> store \<times> (failure + auth_response)" where
  "changePassword authCurrentUser reauthenticate updatePassword state =
     (let state = set_loading True state;
          state = set_error None state;
          (state, outcome) =
            (case changePassword_try authCurrentUser reauthenticate updatePassword state of
               (state, Inr response) \<Rightarrow> (state, Inr response)
             | (state, Inl err) \<Rightarrow> changePassword_catch err state)
      in (set_loading False state, outcome))"

subsection \<open>fetchUser\<close>

text \<open>
  The promise \<open>fetchUser\<close> returns, as it stands when the call returns: still pending,
  or resolved with a value.
\<close>

datatype promise = Pending | Resolved "jsobj option"

text \<open>
  The executor of the promise. Without the flag it subscribes a listener, and the
  promise stays pending until that listener runs; with the flag it resolves at once.
\<close>

definition fetchUser :: "store \<Rightarrow> store \<times> promise" where
  "fetchUser state =
     (if \<not> authInitialized state
      then (state\<lparr>listeners := Suc (listeners state)\<rparr>, Pending)
      else (state, Resolved (currentUser state)))"

text \<open>
  One run of a subscribed listener, for the user Firebase reports (\<open>None\<close> for \<open>null\<close>)
  and the call \<open>getUsers\<close> that fetches the profile. It returns the value it resolves
  the promise of its subscription with. The outer catch block of the source is left
  out: nothing in the outer try block throws past the inner catch.
\<close>

definition authStateListener ::
    "fb_user option \<Rightarrow> action_call \<Rightarrow> store \<Rightarrow> store \<times> jsobj option" where
  "authStateListener firebaseUser getProfile state =
     (let state =
            (case firebaseUser of
               Some u \<Rightarrow>
                 (let state = performs getProfile state
                  in (case result getProfile of
                        Inr userProfile \<Rightarrow>
                          set_currentUser (Some (spreadValue (authUserObject u) userProfile)) state
                      | Inl profileError \<Rightarrow> set_currentUser (Some (authUserObject u)) state))
             | None \<Rightarrow> set_currentUser None state);
          state = set_authInitialized True state
      in (state, currentUser state))"

subsection \<open>resendVerificationEmail\<close>

definition resendVerificationErrorMessage :: "js_error \<Rightarrow> string" where
  "resendVerificationErrorMessage err =
     (if code err = Some ''auth/too-many-requests''
        then ''Too many requests. Please wait before trying again.''
      else if message err \<noteq> [] then message err
      else ''An unknown error occurred.'')"

definition resendVerificationEmail_try ::
    "fb_user option \<Rightarrow> (js_error + unit) \<Rightarrow> store \<Rightarrow> store \<times> (js_error + auth_response)" where
  "resendVerificationEmail_try authCurrentUser sendVerificationEmail state =
     (case authCurrentUser of
        None \<Rightarrow> (state, Inl (Error ''No authenticated user to send verification email.''))
      | Some _ \<Rightarrow>
          (case sendVerificationEmail of
             Inl err \<Rightarrow> (state, Inl err)
           | Inr _ \<Rightarrow>
               (case set_emailVerificationSent True state of
                  (state, Inl err) \<Rightarrow> (state, Inl err)
                | (state, Inr _) \<Rightarrow> (state, Inr Success))))"

definition resendVerificationEmail_catch ::
    "js_error \<Rightarrow> store \<Rightarrow> store \<times> (failure + auth_response)" where
  "resendVerificationEmail_catch err state =
     (let errorMessage = resendVerificationErrorMessage err;
          state = set_error (Some errorMessage) state
      in (state, Inl \<lparr>failure_code = code err, failure_message = errorMessage,
                       originalError = err\<rparr>))"

definition resendVerificationEmail ::
    "fb_user option \<Rightarrow> (js_error + unit) \<Rightarrow> store \<Rightarrow> store \<times> (failure + auth_response)" where
  "resendVerificationEmail authCurrentUser sendVerificationEmail state =
     (let state = set_loading True state;
          state = set_error None state;
          (state, outcome) =
            (case resendVerificationEmail_try authCurrentUser sendVerificationEmail state of
               (state, Inr response) \<Rightarrow> (state, Inr response)
             | (state, Inl err) \<Rightarrow> resendVerificationEmail_catch err state)
      in (set_loading False state, outcome))"

section \<open>Notions the properties are stated with\<close>

text \<open>\<open>occursIn p t\<close>: the text \<open>t\<close> contains \<open>p\<close>.\<close>

fun occursIn :: "string \<Rightarrow> string \<Rightarrow> bool" where
  "occursIn p [] = (p = [])"
| "occursIn p (c # cs) = (take (length p) (c # cs) = p \<or> occursIn p cs)"

text \<open>
  The identifier pattern as the specification words it, \<^verbatim>\<open>^[A-Za-z][A-Za-z0-9_-]*$\<close>: a
  letter, then letters, digits, underscores and hyphens, of any number.
\<close>

fun specIdentifierPattern :: "string \<Rightarrow> bool" where
  "specIdentifierPattern [] = False"
| "specIdentifierPattern (c # cs) = (isLetter c \<and> list_all isNameChar cs)"

text \<open>
  The import statement that binds the export \<open>imported\<close> of the module \<open>source\<close> to the
  local name \<open>alias\<close>.
\<close>

definition namedImport :: "string \<Rightarrow> string \<Rightarrow> string \<Rightarrow> string" where
  "namedImport imported alias source =
     ''import { '' @ imported @ '' as '' @ alias @ '' } from '' @ apostrophe @ source
     @ apostrophe @ '';''"

text \<open>
  A flow that takes the store from \<open>before\<close> to \<open>after\<close> guards the loading flag when
  its first two assignments set \<open>loading\<close> to true and \<open>error\<close> to \<open>null\<close>, its last one
  sets \<open>loading\<close> to false, and \<open>loading\<close> is false when it ends. The assignments in
  between are those of its body and of the operations it calls.
\<close>

definition guardsLoading :: "store \<Rightarrow> store \<Rightarrow> bool" where
  "guardsLoading before after =
     ((\<exists>mid. writes after = writes before @ [WLoading True, WError None] @ mid @ [WLoading False])
      \<and> \<not> loading after)"

text \<open>\<open>extendsWrites s s'\<close>: from \<open>s\<close> to \<open>s'\<close> refs were assigned, and nothing else.\<close>

definition extendsWrites :: "store \<Rightarrow> store \<Rightarrow> bool" where
  "extendsWrites s s' = (\<exists>ws. writes s' = writes s @ ws)"

text \<open>A file system with nothing in it, on which no operation fails.\<close>

definition emptyFilesystem :: filesystem where
  "emptyFilesystem =
     \<lparr>directories = {}, files = Map.empty, io_failure = Map.empty, partial_write = Map.empty\<rparr>"

section \<open>Facts about texts\<close>

lemmas descriptor_defs =
  actionDescriptors_def d_fetchInitialPage_def d_fetchNextPage_def d_applyFilters_def
  d_changeSorting_def d_add_def d_get_def d_getWhere_def d_update_def d_search_def
  d_clearSearch_def d_remove_def d_assignRoles_def d_revokeRoles_def

lemma occursIn_prefix: "occursIn p (p @ b)"
proof (cases "p @ b")
  case Nil
  then show ?thesis by simp
next
  case (Cons c cs)
  have "take (length p) (p @ b) = p" by simp
  then have "take (length p) (c # cs) = p" using Cons by simp
  then show ?thesis using Cons by simp
qed

lemma occursIn_self: "occursIn p p"
  using occursIn_prefix [of p "[]"] by simp

lemma occursIn_appendI: "occursIn p t \<Longrightarrow> occursIn p (a @ t)"
  by (induction a) auto

lemma occursIn_append: "occursIn p (a @ p @ b)"
  by (rule occursIn_appendI) (rule occursIn_prefix)

lemma occursIn_prefix3: "occursIn (x @ y @ z) (x @ y @ z @ r)"
  using occursIn_prefix [of "x @ y @ z" r] by simp

lemma occursIn_appendR: "occursIn p t \<Longrightarrow> occursIn p (t @ b)"
proof (induction t)
  case Nil
  then have "p = []" by simp
  then show ?case using occursIn_prefix [of "[]" b] by simp
next
  case (Cons c cs)
  show ?case
  proof (cases "take (length p) (c # cs) = p")
    case True
    then have "c # cs = p @ drop (length p) (c # cs)"
      by (metis append_take_drop_id)
    then have "(c # cs) @ b = p @ (drop (length p) (c # cs) @ b)"
      by (metis append_assoc)
    then show ?thesis using occursIn_prefix by metis
  next
    case False
    with Cons have "occursIn p (cs @ b)" by simp
    then show ?thesis by simp
  qed
qed

lemma occursIn_joinWith: "x \<in> set xs \<Longrightarrow> occursIn x (joinWith sep xs)"
proof (induction sep xs rule: joinWith.induct)
  case (1 sep)
  then show ?case by simp
next
  case (2 sep y)
  then show ?case by (simp add: occursIn_self)
next
  case (3 sep y z zs)
  show ?case
  proof (cases "x = y")
    case True
    then show ?thesis using occursIn_prefix [of y] by simp
  next
    case False
    with 3 have "occursIn x (joinWith sep (z # zs))" by simp
    then show ?thesis using occursIn_appendI by simp
  qed
qed

lemma foldl_append_text: "foldl (\<lambda>content d. content @ f d) h ds = h @ concat (map f ds)"
  by (induction ds arbitrary: h) simp_all

lemma dropWhile_none: "\<forall>c \<in> set xs. \<not> P c \<Longrightarrow> dropWhile P xs = xs"
  by (cases xs) auto

lemma trim_no_space: "\<forall>c \<in> set s. \<not> isSpace c \<Longrightarrow> trim s = s"
  by (simp add: trim_def dropWhile_none)

section \<open>Properties of the naming utility and of the descriptor table\<close>

text \<open>
  C9. The naming utility is defined on the empty string: \<open>capitalize\<close> and
  \<open>toCamelCase\<close> both return the empty string there.
\<close>

theorem naming_utility_empty_string:
  "capitalize [] = [] \<and> toCamelCase [] = []"
  by (simp add: toCamelCase_def trim_def toLowerCase_def)

text \<open>
  C4. The table has thirteen descriptors, in the order fetchInitialPage,
  fetchNextPage, applyFilters, changeSorting, add, get, getWhere, update, search,
  clearSearch, remove, assignRoles, revokeRoles, and for every suffix \<open>S\<close> the member
  names they derive are the thirteen of the list below.
\<close>

theorem action_descriptor_table:
  "length actionDescriptors = 13
   \<and> map key actionDescriptors =
       [''fetchInitialPage'', ''fetchNextPage'', ''applyFilters'', ''changeSorting'', ''add'',
        ''get'', ''getWhere'', ''update'', ''search'', ''clearSearch'', ''remove'',
        ''assignRoles'', ''revokeRoles'']
   \<and> (\<forall>S. map (\<lambda>d. exportName d S) actionDescriptors =
       [''fetchInitialPage'' @ S, ''fetchNextPage'' @ S, ''apply'' @ S @ ''Filters'',
        ''change'' @ S @ ''Sorting'', ''add'' @ S, ''get'' @ S, ''getWhere'' @ S,
        ''update'' @ S, ''search'' @ S, ''clear'' @ S @ ''Search'', ''delete'' @ S,
        ''assign'' @ S @ ''Roles'', ''revoke'' @ S @ ''Roles''])"
  by (simp add: actionDescriptors_def d_fetchInitialPage_def d_fetchNextPage_def
      d_applyFilters_def d_changeSorting_def d_add_def d_get_def d_getWhere_def d_update_def
      d_search_def d_clearSearch_def d_remove_def d_assignRoles_def d_revokeRoles_def)


section \<open>Member names of a composed module\<close>

lemma memberText_name:
  "occursIn (''    '' @ exportName d suffix @ ''(...args) {\<newline>'') (memberText suffix d)"
  unfolding memberText_def Let_def by (intro occursIn_prefix3 occursIn_appendI)

lemma occursIn_concat_map:
  "d \<in> set ds \<Longrightarrow> occursIn p (f d) \<Longrightarrow> occursIn p (concat (map f ds))"
  by (induction ds) (auto intro: occursIn_appendI occursIn_appendR)

lemma moduleContent_parts:
  "moduleContent n =
     moduleHeader n @ concat (map (memberText (capitalize n)) actionDescriptors)
     @ ''  };\<newline>'' @ ''}\<newline>''"
  by (simp only: moduleContent_def Let_def foldl_append_text append_assoc)

lemma member_in_content:
  assumes "d \<in> set actionDescriptors"
  shows "occursIn (''    '' @ exportName d (capitalize n) @ ''(...args) {\<newline>'') (moduleContent n)"
proof -
  have "occursIn (''    '' @ exportName d (capitalize n) @ ''(...args) {\<newline>'')
          (concat (map (memberText (capitalize n)) actionDescriptors))"
    using assms memberText_name by (rule occursIn_concat_map)
  then show ?thesis
    unfolding moduleContent_parts by (intro occursIn_appendI occursIn_appendR)
qed

text \<open>
  For every collection name the loop emits the two role members, each once: the
  composer has no input that says whether the collection is an auth collection.
\<close>

lemma role_members_always_emitted:
  "count_list (memberNames n) (''assign'' @ capitalize n @ ''Roles'') = 1
   \<and> count_list (memberNames n) (''revoke'' @ capitalize n @ ''Roles'') = 1"
  by (simp add: memberNames_def Let_def descriptor_defs)

text \<open>
  C1, evaluated at the collection \<open>products\<close>, which the driver does not classify as
  an auth collection: the composed module has the members \<open>assignProductsRoles\<close> and
  \<open>revokeProductsRoles\<close>, where the claim wants none.
\<close>

theorem role_members_for_non_auth_collection:
  "\<not> isAuthCollection ''products''
   \<and> validCollectionName ''products''
   \<and> memberNames ''products'' =
       [''fetchInitialPageProducts'', ''fetchNextPageProducts'', ''applyProductsFilters'',
        ''changeProductsSorting'', ''addProducts'', ''getProducts'', ''getWhereProducts'',
        ''updateProducts'', ''searchProducts'', ''clearProductsSearch'', ''deleteProducts'',
        ''assignProductsRoles'', ''revokeProductsRoles'']
   \<and> occursIn ''    assignProductsRoles(...args) {\<newline>'' (moduleContent ''products'')
   \<and> occursIn ''    revokeProductsRoles(...args) {\<newline>'' (moduleContent ''products'')"
proof -
  have names: "\<not> isAuthCollection ''products'' \<and> validCollectionName ''products''
    \<and> memberNames ''products'' =
       [''fetchInitialPageProducts'', ''fetchNextPageProducts'', ''applyProductsFilters'',
        ''changeProductsSorting'', ''addProducts'', ''getProducts'', ''getWhereProducts'',
        ''updateProducts'', ''searchProducts'', ''clearProductsSearch'', ''deleteProducts'',
        ''assignProductsRoles'', ''revokeProductsRoles'']"
    by code_simp
  have a: "d_assignRoles \<in> set actionDescriptors" and r: "d_revokeRoles \<in> set actionDescriptors"
    by (simp_all add: actionDescriptors_def)
  have cap: "capitalize ''products'' = ''Products''"
    by code_simp
  have ea: "exportName d_assignRoles ''Products'' = ''assignProductsRoles''"
    and er: "exportName d_revokeRoles ''Products'' = ''revokeProductsRoles''"
    by (simp_all add: d_assignRoles_def d_revokeRoles_def)
  have A: "occursIn (''    '' @ ''assignProductsRoles'' @ ''(...args) {\<newline>'')
             (moduleContent ''products'')"
    using member_in_content [OF a, of "''products''"] by (simp only: cap ea)
  have R: "occursIn (''    '' @ ''revokeProductsRoles'' @ ''(...args) {\<newline>'')
             (moduleContent ''products'')"
    using member_in_content [OF r, of "''products''"] by (simp only: cap er)
  show ?thesis
    using names A R by simp
qed


section \<open>The suffix\<close>

lemma splitSeparators_all:
  "list_all (list_all (\<lambda>c. \<not> isSeparator c)) (splitSeparators s)"
  by (induction s rule: splitSeparators.induct) (auto split: list.splits)

lemma splitSeparators_tokens:
  "w \<in> set (splitSeparators s) \<Longrightarrow> c \<in> set w \<Longrightarrow> \<not> isSeparator c"
  using splitSeparators_all [of s] by (auto simp: list_all_iff)

lemma toUpperChar_cases: "toUpperChar c = c \<or> toUpperChar c \<in> set uppers"
  by (auto simp: toUpperChar_def split: option.splits dest!: map_of_SomeD set_zip_rightD)

lemma uppers_not_space: "u \<in> set uppers \<Longrightarrow> \<not> isSpace u"
  by (auto simp: uppers_def isSpace_def)

lemma toUpperChar_not_space: "\<not> isSpace c \<Longrightarrow> \<not> isSpace (toUpperChar c)"
  using toUpperChar_cases [of c] uppers_not_space by auto

lemma toCamelCase_no_space:
  assumes "c \<in> set (toCamelCase str)"
  shows "\<not> isSpace c"
proof -
  from assms obtain i w
    where iw: "(i, w) \<in> set (enumerate 0 (splitSeparators (toLowerCase (trim str))))"
      and c: "c \<in> set (if i = 0 then w
                       else (case w of [] \<Rightarrow> [] | d # ds \<Rightarrow> toUpperChar d # ds))"
    by (auto simp: toCamelCase_def)
  from iw have w: "w \<in> set (splitSeparators (toLowerCase (trim str)))"
    by (auto simp: in_set_enumerate_eq)
  have ns: "\<And>d. d \<in> set w \<Longrightarrow> \<not> isSpace d"
    using splitSeparators_tokens [OF w] by (auto simp: isSeparator_def)
  show ?thesis
  proof (cases "i = 0")
    case True
    with c ns show ?thesis by simp
  next
    case False
    with c ns show ?thesis by (cases w) (auto simp: toUpperChar_not_space)
  qed
qed

lemma trim_toCamelCase: "trim (toCamelCase str) = toCamelCase str"
  by (rule trim_no_space) (auto dest: toCamelCase_no_space)

text \<open>
  C2 as stated fails at the composer. It takes the suffix of \<open>client-submissions\<close> to be
  \<open>Client-submissions\<close>, not \<open>ClientSubmissions\<close>, its member names differ from those
  of \<open>clientSubmissions\<close>, and it rejects \<open>Client Submissions\<close>.
\<close>

theorem composer_suffix_counterexample:
  "validCollectionName ''client-submissions''
   \<and> capitalize ''client-submissions'' = ''Client-submissions''
   \<and> capitalize (toCamelCase ''client-submissions'') = ''ClientSubmissions''
   \<and> memberNames ''client-submissions'' =
       [''fetchInitialPageClient-submissions'', ''fetchNextPageClient-submissions'',
        ''applyClient-submissionsFilters'', ''changeClient-submissionsSorting'',
        ''addClient-submissions'', ''getClient-submissions'', ''getWhereClient-submissions'',
        ''updateClient-submissions'', ''searchClient-submissions'',
        ''clearClient-submissionsSearch'', ''deleteClient-submissions'',
        ''assignClient-submissionsRoles'', ''revokeClient-submissionsRoles'']
   \<and> moduleExportName ''client-submissions'' = ''useClient-submissionsActions''
   \<and> \<not> validCollectionName ''Client Submissions''"
  by code_simp

text \<open>
  C2, amended. The driver hands the composer \<open>toCamelCase\<close> of each name typed at the
  prompt, and the composer takes \<open>capitalize\<close> of the name it is handed as the suffix.
  So for a typed name \<open>raw\<close> the member names are those of the suffix
  \<open>capitalize (toCamelCase raw)\<close>, and the answers \<open>client-submissions\<close>,
  \<open>client_submissions\<close> and \<open>Client Submissions\<close> all give the one collection
  \<open>clientSubmissions\<close>, of suffix \<open>ClientSubmissions\<close>.
\<close>

theorem driver_normalises_suffix:
  "collectionsOfAnswer answer =
     filter (\<lambda>c. c \<noteq> []) (map toCamelCase (splitComma (trim answer)))
   \<and> memberNames (trim (toCamelCase raw)) =
       map (\<lambda>d. exportName d (capitalize (toCamelCase raw))) actionDescriptors
   \<and> moduleExportName (trim (toCamelCase raw)) =
       ''use'' @ capitalize (toCamelCase raw) @ ''Actions''
   \<and> collectionsOfAnswer ''client-submissions'' = [''clientSubmissions'']
   \<and> collectionsOfAnswer ''client_submissions'' = [''clientSubmissions'']
   \<and> collectionsOfAnswer ''Client Submissions'' = [''clientSubmissions'']
   \<and> capitalize ''clientSubmissions'' = ''ClientSubmissions''"
proof -
  have examples:
    "collectionsOfAnswer ''client-submissions'' = [''clientSubmissions'']
     \<and> collectionsOfAnswer ''client_submissions'' = [''clientSubmissions'']
     \<and> collectionsOfAnswer ''Client Submissions'' = [''clientSubmissions'']
     \<and> capitalize ''clientSubmissions'' = ''ClientSubmissions''"
    by code_simp
  have "collectionsOfAnswer answer =
          filter (\<lambda>c. c \<noteq> []) (map toCamelCase (splitComma (trim answer)))"
    by (simp add: collectionsOfAnswer_def trim_toCamelCase)
  then show ?thesis
    using examples by (simp add: memberNames_def moduleExportName_def trim_toCamelCase)
qed

section \<open>Documentation text\<close>


















section \<open>Import lines of the index file\<close>

lemma header_export:
  "occursIn (''export function '' @ moduleExportName n @ ''(state) {\<newline>'') (moduleHeader n)"
  unfolding moduleHeader_def by (intro occursIn_prefix3 occursIn_appendI)

lemma content_export:
  "occursIn (''export function '' @ moduleExportName n @ ''(state) {\<newline>'') (moduleContent n)"
  unfolding moduleContent_parts by (intro occursIn_appendR header_export)

text \<open>
  C10 as stated fails at the collection \<open>firestoreCollection\<close>, which the driver derives
  from the answer \<open>firestore collection\<close>: its module exports the function
  \<open>useFirestoreCollectionActions\<close>, the very name the import line asks for.
\<close>

theorem action_import_counterexample:
  "validCollectionName ''firestoreCollection''
   \<and> collectionsOfAnswer ''firestore collection'' = [''firestoreCollection'']
   \<and> moduleExportName ''firestoreCollection'' = ''useFirestoreCollectionActions''
   \<and> actionImport ''firestoreCollection'' =
       namedImport ''useFirestoreCollectionActions'' ''useFirestoreCollectionActions''
         ''./actions/firestoreCollection.js''"
  by code_simp

text \<open>
  C10, amended. For every collection \<open>c\<close> the import line binds the export
  \<open>useFirestoreCollectionActions\<close> of \<open>./actions/c.js\<close> to the local name
  \<open>use\<close> + \<open>capitalize c\<close> + \<open>Actions\<close>; that local name is the function the module of \<open>c\<close>
  exports, and unless \<open>capitalize c\<close> is \<open>FirestoreCollection\<close> the export the line
  asks for is not that function. The imports of a run hold the line of each of its
  collections.
\<close>

theorem action_import_names:
  "actionImport c =
     namedImport ''useFirestoreCollectionActions'' (moduleExportName c) (''./actions/'' @ c @ ''.js'')
   \<and> occursIn (''export function '' @ moduleExportName c @ ''(state) {\<newline>'') (moduleContent c)
   \<and> (capitalize c \<noteq> ''FirestoreCollection''
        \<longrightarrow> moduleExportName c \<noteq> ''useFirestoreCollectionActions'')
   \<and> (c \<in> set collections \<longrightarrow> occursIn (actionImport c) (actionImports collections))"
proof (intro conjI impI)
  show "actionImport c =
     namedImport ''useFirestoreCollectionActions'' (moduleExportName c) (''./actions/'' @ c @ ''.js'')"
    by (simp add: actionImport_def namedImport_def moduleExportName_def)
next
  show "occursIn (''export function '' @ moduleExportName c @ ''(state) {\<newline>'') (moduleContent c)"
    by (rule content_export)
next
  assume "capitalize c \<noteq> ''FirestoreCollection''"
  then show "moduleExportName c \<noteq> ''useFirestoreCollectionActions''"
    by (simp add: moduleExportName_def)
next
  assume "c \<in> set collections"
  then show "occursIn (actionImport c) (actionImports collections)"
    by (simp add: actionImports_def occursIn_joinWith)
qed

theorem action_import_names_witness:
  "actionImport ''users'' =
     namedImport ''useFirestoreCollectionActions'' ''useUsersActions'' ''./actions/users.js''
   \<and> occursIn (''export function '' @ ''useUsersActions'' @ ''(state) {\<newline>'') (moduleContent ''users'')
   \<and> ''useUsersActions'' \<noteq> ''useFirestoreCollectionActions''
   \<and> occursIn (actionImport ''users'') (actionImports [''users'', ''products''])"
proof -
  have cap: "capitalize ''users'' = ''Users''"
    by code_simp
  have name: "moduleExportName ''users'' = ''useUsersActions''"
    by code_simp
  have differs: "capitalize ''users'' \<noteq> ''FirestoreCollection''"
    by (simp add: cap)
  have member: "''users'' \<in> set [''users'', ''products'']"
    by simp
  show ?thesis
    using action_import_names [of "''users''" "[''users'', ''products'']"] differs member
    by (auto simp: name)
qed

section \<open>Failure of the composer\<close>

lemma valid_iff_spec_pattern:
  "validCollectionName n \<longleftrightarrow> specIdentifierPattern n \<and> length n \<le> 64"
  by (cases n) auto

lemma generate_invalid:
  "\<not> validCollectionName n \<Longrightarrow>
   generateCollectionActionModule fs b n =
     (fs, Inl (Error (''[Action Generator] '' @ n
                       @ '' failed: Invalid Firestore collection name: '' @ n)))"
  by (simp add: generateCollectionActionModule_def Error_def)

text \<open>The three ways a call with a valid name ends.\<close>

lemma generate_valid_cases:
  assumes "validCollectionName n"
  shows "generateCollectionActionModule fs b n =
     (let actionsDir = path_join b ''actions'';
          filePath = path_join actionsDir (n @ ''.js'');
          wrap = (\<lambda>m. Error (''[Action Generator] '' @ n @ '' failed: '' @ m))
      in if \<not> existsSync fs actionsDir \<and> io_failure fs actionsDir \<noteq> None
         then (fs, Inl (wrap (the (io_failure fs actionsDir))))
         else let fs1 = (if existsSync fs actionsDir then fs
                         else fs\<lparr>directories := insert actionsDir (directories fs)\<rparr>)
              in if io_failure fs filePath \<noteq> None
                 then ((case partial_write fs filePath of
                          None \<Rightarrow> fs1
                        | Some k \<Rightarrow>
                            fs1\<lparr>files := (files fs)(filePath \<mapsto>
                                   take k (trim (moduleContent n) @ ''\<newline>''))\<rparr>),
                       Inl (wrap (''Failed to write file: '' @ filePath @ ''\<newline>''
                                   @ the (io_failure fs filePath))))
                 else (fs1\<lparr>files := (files fs)(filePath \<mapsto> trim (moduleContent n) @ ''\<newline>'')\<rparr>,
                       Inr \<lparr>success = True, path = filePath\<rparr>))"
  using assms
  by (auto simp: generateCollectionActionModule_def Let_def mkdirSync_def writeFile_def
        writeFileSync_def Error_def split: option.splits)

lemma generate_fails_iff:
  "isl (snd (generateCollectionActionModule fs b n)) \<longleftrightarrow>
     \<not> validCollectionName n
     \<or> (\<not> existsSync fs (path_join b ''actions'')
         \<and> io_failure fs (path_join b ''actions'') \<noteq> None)
     \<or> io_failure fs (path_join (path_join b ''actions'') (n @ ''.js'')) \<noteq> None"
proof (cases "validCollectionName n")
  case True
  then show ?thesis by (simp add: generate_valid_cases Let_def)
next
  case False
  then show ?thesis by (simp add: generate_invalid)
qed

lemma generate_failure_shape:
  assumes "isl (snd (generateCollectionActionModule fs b n))"
  shows "\<exists>m. snd (generateCollectionActionModule fs b n) =
           Inl (Error (''[Action Generator] '' @ n @ '' failed: '' @ m))"
proof (cases "validCollectionName n")
  case True
  with assms show ?thesis by (auto simp: generate_valid_cases Let_def split: if_splits)
next
  case False
  then show ?thesis by (simp add: generate_invalid Error_def)
qed

text \<open>
  A write that fails after the file has been opened leaves the file behind, here
  empty: a failing call is not always without effect on the files.
\<close>

lemma failed_write_may_leave_file:
  "files (fst (generateCollectionActionModule
                 (emptyFilesystem\<lparr>io_failure := [''stores/shop/actions/users.js'' \<mapsto> ''ENOSPC''],
                                   partial_write := [''stores/shop/actions/users.js'' \<mapsto> 0]\<rparr>)
                 ''stores/shop'' ''users''))
     ''stores/shop/actions/users.js'' = Some []"
proof -
  have users: "validCollectionName ''users''"
    by code_simp
  show ?thesis
    by (simp add: generate_valid_cases [OF users] Let_def emptyFilesystem_def path_join_def
        existsSync_def)
qed

text \<open>
  C6 as stated fails. A name of 65 letters matches the pattern of the claim, and the
  composer rejects it; and with the valid name \<open>users\<close> the call fails when the file
  cannot be written.
\<close>

theorem composition_failure_counterexample:
  "specIdentifierPattern (replicate 65 (CHR ''a''))
   \<and> isl (snd (generateCollectionActionModule emptyFilesystem ''stores/shop''
                 (replicate 65 (CHR ''a''))))
   \<and> specIdentifierPattern ''users''
   \<and> isl (snd (generateCollectionActionModule
                 (emptyFilesystem\<lparr>io_failure := [''stores/shop/actions/users.js'' \<mapsto> ''EACCES'']\<rparr>)
                 ''stores/shop'' ''users''))"
proof -
  have long: "specIdentifierPattern (replicate 65 (CHR ''a''))
      \<and> \<not> validCollectionName (replicate 65 (CHR ''a''))"
    by code_simp
  have users: "specIdentifierPattern ''users'' \<and> validCollectionName ''users''"
    by code_simp
  show ?thesis
    using long users by (simp add: generate_fails_iff path_join_def)
qed

text \<open>
  C6, amended. A call of the composer fails if and only if the name does not match
  \<^verbatim>\<open>^[A-Za-z][A-Za-z0-9_-]{0,63}$\<close> (the pattern of the claim, with at most 64
  characters), or the actions directory is missing and cannot be created, or the
  file cannot be written. When the name does not match, the error names the
  collection and the file system is as before: no directory created, no file
  written. Whenever the call fails the message names the collection.
\<close>

theorem composition_failure:
  "(isl (snd (generateCollectionActionModule fs baseDir n)) \<longleftrightarrow>
       \<not> (specIdentifierPattern n \<and> length n \<le> 64)
       \<or> (\<not> existsSync fs (path_join baseDir ''actions'')
           \<and> io_failure fs (path_join baseDir ''actions'') \<noteq> None)
       \<or> io_failure fs (path_join (path_join baseDir ''actions'') (n @ ''.js'')) \<noteq> None)
   \<and> (\<not> (specIdentifierPattern n \<and> length n \<le> 64) \<longrightarrow>
        generateCollectionActionModule fs baseDir n =
          (fs, Inl (Error (''[Action Generator] '' @ n
                            @ '' failed: Invalid Firestore collection name: '' @ n))))
   \<and> (isl (snd (generateCollectionActionModule fs baseDir n)) \<longrightarrow>
        (\<exists>m. snd (generateCollectionActionModule fs baseDir n) =
              Inl (Error (''[Action Generator] '' @ n @ '' failed: '' @ m))))"
  using generate_fails_iff [of fs baseDir n] generate_invalid [of n fs baseDir]
    generate_failure_shape [of fs baseDir n]
  by (simp only: valid_iff_spec_pattern) blast

theorem composition_failure_witness:
  "generateCollectionActionModule emptyFilesystem ''stores/shop'' ''9lives'' =
     (emptyFilesystem,
      Inl (Error ''[Action Generator] 9lives failed: Invalid Firestore collection name: 9lives''))
   \<and> isl (snd (generateCollectionActionModule emptyFilesystem ''stores/shop'' ''9lives''))
   \<and> files (fst (generateCollectionActionModule emptyFilesystem ''stores/shop'' ''9lives''))
       = Map.empty
   \<and> \<not> isl (snd (generateCollectionActionModule emptyFilesystem ''stores/shop'' ''orders''))"
proof -
  have bad: "\<not> (specIdentifierPattern ''9lives'' \<and> length ''9lives'' \<le> 64)"
    by code_simp
  have good: "specIdentifierPattern ''orders'' \<and> length ''orders'' \<le> 64"
    by code_simp
  have nofail: "io_failure emptyFilesystem = Map.empty" and nofiles: "files emptyFilesystem = Map.empty"
    by (simp_all add: emptyFilesystem_def)
  show ?thesis
    using composition_failure [of emptyFilesystem "''stores/shop''" "''9lives''"]
      composition_failure [of emptyFilesystem "''stores/shop''" "''orders''"]
      bad good
    by (simp add: nofail nofiles)
qed


section \<open>Determinism of the composer\<close>

lemma generate_success:
  assumes "generateCollectionActionModule fs b n = (fs', Inr r)"
  shows "validCollectionName n"
    and "path r = path_join (path_join b ''actions'') (n @ ''.js'')"
    and "files fs' = (files fs)(path r \<mapsto> trim (moduleContent n) @ ''\<newline>'')"
    and "io_failure fs' = io_failure fs"
    and "io_failure fs (path r) = None"
    and "existsSync fs' (path_join b ''actions'')"
    and "success r"
proof -
  have v: "validCollectionName n"
    using assms generate_invalid [of n fs b] by auto
  then show "validCollectionName n" .
  note c = generate_valid_cases [OF v, of fs b]
  show "path r = path_join (path_join b ''actions'') (n @ ''.js'')"
    using assms c by (auto simp: Let_def split: if_splits)
  show "files fs' = (files fs)(path r \<mapsto> trim (moduleContent n) @ ''\<newline>'')"
    using assms c by (auto simp: Let_def split: if_splits)
  show "io_failure fs' = io_failure fs"
    using assms c by (auto simp: Let_def split: if_splits)
  show "io_failure fs (path r) = None"
    using assms c by (auto simp: Let_def split: if_splits)
  show "existsSync fs' (path_join b ''actions'')"
    using assms c by (auto simp: Let_def existsSync_def split: if_splits)
  show "success r"
    using assms c by (auto simp: Let_def split: if_splits)
qed

lemma generate_again:
  assumes "generateCollectionActionModule fs b n = (fs', Inr r)"
  shows "generateCollectionActionModule fs' b n = (fs', Inr r)"
proof -
  note s = generate_success [OF assms]
  have p: "path_join (path_join b ''actions'') (n @ ''.js'') = path r" using s(2) by simp
  have "generateCollectionActionModule fs' b n =
          (fs'\<lparr>files := (files fs')(path r \<mapsto> trim (moduleContent n) @ ''\<newline>'')\<rparr>,
           Inr \<lparr>success = True, path = path r\<rparr>)"
    using s(1) s(4) s(5) s(6) by (simp add: generate_valid_cases Let_def p)
  moreover have "fs'\<lparr>files := (files fs')(path r \<mapsto> trim (moduleContent n) @ ''\<newline>'')\<rparr> = fs'"
    using s(3) by simp
  moreover have "\<lparr>success = True, path = path r\<rparr> = r" using s(7) by simp
  ultimately show ?thesis by simp
qed

text \<open>
  C8. The text the composer writes is a function of the collection name alone: two
  successful calls for one name, whatever the file systems and base directories,
  write the same bytes, namely the trimmed content of the name with a line feed, and
  a second call on the file system the first one left changes nothing.
\<close>

theorem composer_deterministic:
  assumes "generateCollectionActionModule fs1 b1 n = (fs1', Inr r1)"
      and "generateCollectionActionModule fs2 b2 n = (fs2', Inr r2)"
  shows "files fs1' (path r1) = Some (trim (moduleContent n) @ ''\<newline>'')
       \<and> files fs2' (path r2) = files fs1' (path r1)
       \<and> generateCollectionActionModule fs1' b1 n = (fs1', Inr r1)"
  using generate_success(3) [OF assms(1)] generate_success(3) [OF assms(2)]
    generate_again [OF assms(1)]
  by simp

theorem composer_deterministic_witness:
  "files (fst (generateCollectionActionModule emptyFilesystem ''stores/shop'' ''orders''))
       ''stores/shop/actions/orders.js''
     = Some (trim (moduleContent ''orders'') @ ''\<newline>'')
   \<and> files (fst (generateCollectionActionModule emptyFilesystem ''stores/depot'' ''orders''))
       ''stores/depot/actions/orders.js''
     = files (fst (generateCollectionActionModule emptyFilesystem ''stores/shop'' ''orders''))
       ''stores/shop/actions/orders.js''
   \<and> generateCollectionActionModule
       (fst (generateCollectionActionModule emptyFilesystem ''stores/shop'' ''orders''))
       ''stores/shop'' ''orders''
     = generateCollectionActionModule emptyFilesystem ''stores/shop'' ''orders''"
proof -
  have v: "validCollectionName ''orders''"
    by code_simp
  have 1: "generateCollectionActionModule emptyFilesystem ''stores/shop'' ''orders'' =
      (fst (generateCollectionActionModule emptyFilesystem ''stores/shop'' ''orders''),
       Inr \<lparr>success = True, path = ''stores/shop/actions/orders.js''\<rparr>)"
    by (simp add: generate_valid_cases [OF v] Let_def emptyFilesystem_def existsSync_def
        path_join_def)
  have 2: "generateCollectionActionModule emptyFilesystem ''stores/depot'' ''orders'' =
      (fst (generateCollectionActionModule emptyFilesystem ''stores/depot'' ''orders''),
       Inr \<lparr>success = True, path = ''stores/depot/actions/orders.js''\<rparr>)"
    by (simp add: generate_valid_cases [OF v] Let_def emptyFilesystem_def existsSync_def
        path_join_def)
  show ?thesis
    using composer_deterministic [OF 1 2] 1 by simp
qed


section \<open>The generated flows\<close>

lemma writes_set:
  "writes (set_loading b s) = writes s @ [WLoading b]"
  "writes (set_error m s) = writes s @ [WError m]"
  "writes (set_currentUser u s) = writes s @ [WCurrentUser u]"
  "writes (set_authInitialized b s) = writes s @ [WAuthInitialized b]"
  by (simp_all add: set_loading_def set_error_def set_currentUser_def set_authInitialized_def)

lemma loading_set:
  "loading (set_loading b s) = b"
  "loading (set_error m s) = loading s"
  "loading (set_currentUser u s) = loading s"
  "loading (set_authInitialized c s) = loading s"
  by (simp_all add: set_loading_def set_error_def set_currentUser_def set_authInitialized_def)

lemma extendsWrites_refl: "extendsWrites s s"
  by (simp add: extendsWrites_def)

lemma extendsWrites_trans:
  "extendsWrites s s' \<Longrightarrow> extendsWrites s' s'' \<Longrightarrow> extendsWrites s s''"
  by (auto simp: extendsWrites_def)

lemma extendsWrites_set:
  "extendsWrites s (set_loading b s)"
  "extendsWrites s (set_error m s)"
  "extendsWrites s (set_currentUser u s)"
  "extendsWrites s (set_authInitialized b s)"
  by (simp_all add: extendsWrites_def writes_set)

lemma extendsWrites_assign: "extendsWrites s (assign w s)"
  by (cases w) (simp_all add: assign_def extendsWrites_def writes_set)

lemma extendsWrites_foldl:
  "extendsWrites s (foldl (\<lambda>state w. assign w state) s ws)"
proof (induction ws arbitrary: s)
  case Nil
  then show ?case by (simp add: extendsWrites_refl)
next
  case (Cons w ws)
  have "extendsWrites s (assign w s)"
    by (rule extendsWrites_assign)
  moreover have "extendsWrites (assign w s) (foldl (\<lambda>state w. assign w state) (assign w s) ws)"
    by (rule Cons.IH)
  ultimately show ?case
    using extendsWrites_trans by simp
qed

lemma extendsWrites_performs: "extendsWrites s (performs call s)"
  by (simp add: performs_def extendsWrites_foldl)

lemma extendsWrites_emailVerificationSent:
  "extendsWrites s (fst (set_emailVerificationSent b s))"
  by (auto simp: extendsWrites_def set_emailVerificationSent_def split: option.splits)

lemma extendsWrites_then:
  "extendsWrites s s' \<Longrightarrow> extendsWrites s (set_currentUser u s')"
  "extendsWrites s s' \<Longrightarrow> extendsWrites s (performs call s')"
  "extendsWrites s s' \<Longrightarrow> set_emailVerificationSent b s' = (s'', r) \<Longrightarrow> extendsWrites s s''"
proof -
  show "extendsWrites s s' \<Longrightarrow> extendsWrites s (set_currentUser u s')"
    using extendsWrites_trans extendsWrites_set(3) by blast
  show "extendsWrites s s' \<Longrightarrow> extendsWrites s (performs call s')"
    using extendsWrites_trans extendsWrites_performs by blast
  show "extendsWrites s s' \<Longrightarrow> set_emailVerificationSent b s' = (s'', r) \<Longrightarrow> extendsWrites s s''"
    using extendsWrites_trans extendsWrites_emailVerificationSent [of s' b] by auto
qed

lemma guards_loading_intro:
  "extendsWrites (set_error None (set_loading True s)) s'
   \<Longrightarrow> guardsLoading s (set_loading False s')"
  by (auto simp: extendsWrites_def guardsLoading_def writes_set loading_set)

text \<open>
  The frame every flow but \<open>fetchUser\<close> shares: two assignments, the try block, the
  catch block when the try block throws, and the assignment of the finally block.
\<close>

lemma flow_guards:
  assumes t: "\<And>s. extendsWrites s (fst (tryf s))" and c: "\<And>e s. extendsWrites s (fst (catchf e s))"
  shows "guardsLoading s
     (fst (let state = set_loading True s;
               state = set_error None state;
               (state, outcome) =
                 (case tryf state of
                    (state, Inr response) \<Rightarrow> (state, Inr response)
                  | (state, Inl err) \<Rightarrow> catchf err state)
           in (set_loading False state, outcome)))"
proof -
  let ?s2 = "set_error None (set_loading True s)"
  obtain s3 r where tr: "tryf ?s2 = (s3, r)"
    by (cases "tryf ?s2")
  have q3: "extendsWrites ?s2 s3"
    using t [of ?s2] tr by simp
  show ?thesis
  proof (cases r)
    case (Inr v)
    then show ?thesis
      using tr q3 by (simp add: guards_loading_intro)
  next
    case (Inl e)
    obtain s4 out where ca: "catchf e s3 = (s4, out)"
      by (cases "catchf e s3")
    have "extendsWrites s3 s4"
      using c [of s3 e] ca by simp
    then have "extendsWrites ?s2 s4"
      using q3 extendsWrites_trans by blast
    then show ?thesis
      using tr Inl ca by (simp add: guards_loading_intro)
  qed
qed


lemma login_try_extends: "extendsWrites s (fst (login_try setPersistence signIn getProfile s))"
  by (auto simp: login_try_def Let_def split: sum.splits option.splits prod.splits
      intro: extendsWrites_refl extendsWrites_then;
      blast intro: extendsWrites_refl extendsWrites_then)

lemma login_catch_extends: "extendsWrites s (fst (login_catch e s))"
  by (simp add: login_catch_def Let_def extendsWrites_set)

lemma login_guards: "guardsLoading s (fst (login setPersistence signIn getProfile s))"
  unfolding login_def
  by (rule flow_guards) (rule login_try_extends, rule login_catch_extends)

lemma signUp_try_extends:
  "extendsWrites s (fst (signUp_try createUser updateAuthProfile addProfile sendVerificationEmail
                   profileData sendVerification s))"
  by (auto simp: signUp_try_def Let_def split: sum.splits option.splits prod.splits
      intro: extendsWrites_refl extendsWrites_then;
      blast intro: extendsWrites_refl extendsWrites_then)

lemma signUp_catch_extends: "extendsWrites s (fst (signUp_catch e s))"
  by (simp add: signUp_catch_def Let_def extendsWrites_set)

lemma signUp_guards:
  "guardsLoading s (fst (signUp createUser updateAuthProfile addProfile sendVerificationEmail
                           profileData sendVerification s))"
  unfolding signUp_def
  by (rule flow_guards) (rule signUp_try_extends, rule signUp_catch_extends)

lemma logout_try_extends: "extendsWrites s (fst (logout_try signOut s))"
  by (auto simp: logout_try_def Let_def split: sum.splits option.splits prod.splits
      intro: extendsWrites_refl extendsWrites_then;
      blast intro: extendsWrites_refl extendsWrites_then)

lemma logout_catch_extends: "extendsWrites s (fst (logout_catch e s))"
  by (simp add: logout_catch_def Let_def extendsWrites_set)

lemma logout_guards: "guardsLoading s (fst (logout signOut s))"
  unfolding logout_def
  by (rule flow_guards) (rule logout_try_extends, rule logout_catch_extends)

lemma sendPasswordReset_try_extends:
  "extendsWrites s (fst (sendPasswordReset_try sendPasswordResetEmail s))"
  by (auto simp: sendPasswordReset_try_def Let_def split: sum.splits option.splits prod.splits
      intro: extendsWrites_refl extendsWrites_then;
      blast intro: extendsWrites_refl extendsWrites_then)

lemma sendPasswordReset_catch_extends: "extendsWrites s (fst (sendPasswordReset_catch e s))"
  by (simp add: sendPasswordReset_catch_def Let_def extendsWrites_set)

lemma sendPasswordReset_guards:
  "guardsLoading s (fst (sendPasswordReset sendPasswordResetEmail s))"
  unfolding sendPasswordReset_def
  by (rule flow_guards) (rule sendPasswordReset_try_extends, rule sendPasswordReset_catch_extends)

lemma updateProfile_try_extends:
  "extendsWrites s (fst (updateProfile_try authCurrentUser updateAuthProfile updateDocument getProfile s))"
  by (auto simp: updateProfile_try_def Let_def split: sum.splits option.splits prod.splits
      intro: extendsWrites_refl extendsWrites_then;
      blast intro: extendsWrites_refl extendsWrites_then)

lemma updateProfile_catch_extends: "extendsWrites s (fst (updateProfile_catch e s))"
  by (simp add: updateProfile_catch_def Let_def extendsWrites_set)

lemma updateProfile_guards:
  "guardsLoading s
     (fst (updateProfile authCurrentUser updateAuthProfile updateDocument getProfile s))"
  unfolding updateProfile_def
  by (rule flow_guards) (rule updateProfile_try_extends, rule updateProfile_catch_extends)

lemma changePassword_try_extends:
  "extendsWrites s (fst (changePassword_try authCurrentUser reauthenticate updatePassword s))"
  by (auto simp: changePassword_try_def Let_def split: sum.splits option.splits prod.splits
      intro: extendsWrites_refl extendsWrites_then;
      blast intro: extendsWrites_refl extendsWrites_then)

lemma changePassword_catch_extends: "extendsWrites s (fst (changePassword_catch e s))"
  by (simp add: changePassword_catch_def Let_def extendsWrites_set)

lemma changePassword_guards:
  "guardsLoading s (fst (changePassword authCurrentUser reauthenticate updatePassword s))"
  unfolding changePassword_def
  by (rule flow_guards) (rule changePassword_try_extends, rule changePassword_catch_extends)

lemma resendVerificationEmail_try_extends:
  "extendsWrites s (fst (resendVerificationEmail_try authCurrentUser sendVerificationEmail s))"
  by (auto simp: resendVerificationEmail_try_def Let_def split: sum.splits option.splits prod.splits
      intro: extendsWrites_refl extendsWrites_then;
      blast intro: extendsWrites_refl extendsWrites_then)

lemma resendVerificationEmail_catch_extends: "extendsWrites s (fst (resendVerificationEmail_catch e s))"
  by (simp add: resendVerificationEmail_catch_def Let_def extendsWrites_set)

lemma resendVerificationEmail_guards:
  "guardsLoading s (fst (resendVerificationEmail authCurrentUser sendVerificationEmail s))"
  unfolding resendVerificationEmail_def
  by (rule flow_guards)
     (rule resendVerificationEmail_try_extends, rule resendVerificationEmail_catch_extends)

text \<open>
  With the generated \<open>get\<close> as the profile fetch, \<open>login\<close> of a user that has a uid and
  no profile document makes these assignments on the initial state: the two of its
  entry, the two of \<open>get\<close>, the current user, and the one of its finally block.
\<close>

lemma login_with_generated_get:
  assumes "truthy (uid u)"
  shows "writes (fst (login (Inr ()) (Inr u) (generatedGet (Inr None)) initialState)) =
     [WLoading True, WError None, WLoading True, WLoading False,
      WCurrentUser (Some (authUserObject u)), WLoading False]"
  using assms
  by (simp add: login_def login_try_def Let_def generatedGet_def performs_def assign_def
      initialState_def writes_set authUserObject_def getProp_def)

subsection \<open>Session restore\<close>

text \<open>
  Once a listener has run, \<open>fetchUser\<close> resolves with the current user and subscribes
  nothing; before that, every call subscribes.
\<close>

lemma fetchUser_resolved:
  "authInitialized s \<Longrightarrow> fetchUser s = (s, Resolved (currentUser s))"
  by (simp add: fetchUser_def)

lemma fetchUser_unresolved:
  "\<not> authInitialized s \<Longrightarrow> fetchUser s = (s\<lparr>listeners := Suc (listeners s)\<rparr>, Pending)"
  by (simp add: fetchUser_def)

lemma listeners_assign: "listeners (assign w s) = listeners s"
  by (cases w)
     (simp_all add: assign_def set_loading_def set_error_def set_currentUser_def
        set_authInitialized_def)

lemma listeners_performs: "listeners (performs call s) = listeners s"
proof -
  have "listeners (foldl (\<lambda>state w. assign w state) s ws) = listeners s" for ws
    by (induction ws arbitrary: s) (simp_all add: listeners_assign)
  then show ?thesis
    by (simp add: performs_def)
qed

lemma listener_initializes:
  "authInitialized (fst (authStateListener firebaseUser getProfile s))
   \<and> listeners (fst (authStateListener firebaseUser getProfile s)) = listeners s
   \<and> snd (authStateListener firebaseUser getProfile s)
       = currentUser (fst (authStateListener firebaseUser getProfile s))"
  by (simp add: authStateListener_def Let_def set_authInitialized_def set_currentUser_def
      listeners_performs split: option.splits sum.splits)

text \<open>
  C3, evaluated at two calls of \<open>fetchUser\<close> in a row on the initial state, before the
  listener of the first call has run: \<open>onAuthStateChanged\<close> is called twice and both
  promises are pending, where the claim wants one subscription and the second call
  resolved at once.
\<close>

theorem fetchUser_resubscribes_while_listening:
  "listeners (fst (fetchUser (fst (fetchUser initialState)))) = 2
   \<and> snd (fetchUser initialState) = Pending
   \<and> snd (fetchUser (fst (fetchUser initialState))) = Pending"
  by (simp add: fetchUser_def initialState_def)

subsection \<open>The loading flag\<close>

text \<open>
  C7 as stated fails at \<open>fetchUser\<close>: on the initial state, neither the call nor a run
  of its listener for no user assigns \<open>loading\<close> or clears \<open>error\<close>.
\<close>

theorem fetchUser_loading_counterexample:
  "writes (fst (fetchUser initialState)) = []
   \<and> writes (fst (authStateListener None (generatedGet (Inr None))
                    (fst (fetchUser initialState))))
       = [WCurrentUser None, WAuthInitialized True]
   \<and> \<not> guardsLoading initialState (fst (fetchUser initialState))
   \<and> \<not> guardsLoading initialState
         (fst (authStateListener None (generatedGet (Inr None))
                (fst (fetchUser initialState))))"
  by (simp add: fetchUser_def initialState_def authStateListener_def guardsLoading_def Let_def
      set_currentUser_def set_authInitialized_def)

text \<open>
  C7, amended. Each of the seven flows \<open>login\<close>, \<open>signUp\<close>, \<open>logout\<close>,
  \<open>sendPasswordReset\<close>, \<open>updateProfile\<close>, \<open>changePassword\<close> and
  \<open>resendVerificationEmail\<close>, that is every flow but \<open>fetchUser\<close>, sets \<open>loading\<close> to
  true and \<open>error\<close> to \<open>null\<close> first and sets \<open>loading\<close> to false last, whatever the calls
  it makes assign, return or throw.
\<close>

theorem flows_guard_loading:
  "guardsLoading s (fst (login setPersistence signIn getProfile s))
   \<and> guardsLoading s
       (fst (signUp createUser updateAuthProfile addProfile sendVerificationEmail
               profileData sendVerification s))
   \<and> guardsLoading s (fst (logout signOut s))
   \<and> guardsLoading s (fst (sendPasswordReset sendPasswordResetEmail s))
   \<and> guardsLoading s
       (fst (updateProfile authCurrentUser updateAuthProfile' updateDocument getProfile' s))
   \<and> guardsLoading s (fst (changePassword authCurrentUser' reauthenticate updatePassword s))
   \<and> guardsLoading s
       (fst (resendVerificationEmail authCurrentUser'' sendVerificationEmail' s))"
  by (simp only: login_guards signUp_guards logout_guards sendPasswordReset_guards
      updateProfile_guards changePassword_guards resendVerificationEmail_guards simp_thms)

end
